theory Spec2Isabelle
  imports
    Main
    "HOL-Library.Multiset"
    "HOL-Library.Word"
    "HOL-Library.List_Lexorder"
begin

section \<open>Values and rendered markup\<close>

text \<open>
  A JavaScript string is a sequence of UTF-16 code units, each an unsigned 16-bit number: a
  character outside the Basic Multilingual Plane is two of them, a surrogate pair.  With the
  order of \<open>List_Lexorder\<close> two strings compare code unit by code unit, a proper prefix
  first, which is how JavaScript's relational operators and its default \<^verbatim>\<open>sort()\<close> compare
  strings.  \<open>str\<close> turns an ASCII literal into the string of its character codes.  A field
  that GraphQL may deliver as \<^verbatim>\<open>null\<close> is an \<^typ>\<open>'a option\<close>.
\<close>

type_synonym jsstring = "16 word list"

definition str :: "string \<Rightarrow> jsstring" where
  "str s = map of_char s"

text \<open>
  A component's result is a tree of elements; the names of elements and of props are written
  as plain literals.  The \<^verbatim>\<open>style\<close> props are left out: they are computed by the
  typography utilities, which are not among the sources, and no other value depends on them.
  A \<^verbatim>\<open>null\<close> child renders nothing and is no child of the tree.
\<close>

datatype element =
    Text jsstring
  | Element string "(string \<times> jsstring) list" "element list"

fun descendants :: "element \<Rightarrow> element list" where
  "descendants (Text s) = [Text s]"
| "descendants (Element name props children) =
     Element name props children # concat (map descendants children)"

fun textContent :: "element \<Rightarrow> jsstring" where
  "textContent (Text s) = s"
| "textContent (Element name props children) = concat (map textContent children)"

fun named :: "string \<Rightarrow> element \<Rightarrow> bool" where
  "named n (Text s) = False"
| "named n (Element name props children) = (name = n)"

fun getProp :: "string \<Rightarrow> element \<Rightarrow> jsstring option" where
  "getProp k (Text s) = None"
| "getProp k (Element name props children) = map_of props k"

fun childNodes :: "element \<Rightarrow> element list" where
  "childNodes (Text s) = []"
| "childNodes (Element name props children) = children"

definition elementsNamed :: "string \<Rightarrow> element \<Rightarrow> element list" where
  "elementsNamed n e = filter (named n) (descendants e)"

definition linksWithRel :: "string \<Rightarrow> element \<Rightarrow> element list" where
  "linksWithRel r e =
     filter (\<lambda>x. named ''Link'' x \<and> getProp ''rel'' x = Some (str r)) (descendants e)"

definition within :: "string \<Rightarrow> string \<Rightarrow> element \<Rightarrow> element list" where
  "within outer inner e = concat (map (elementsNamed inner) (elementsNamed outer e))"

text \<open>
  \<^verbatim>\<open>a || b\<close> on a nullable string \<open>a\<close>: the value of \<open>a\<close> when it is truthy (neither
  \<^verbatim>\<open>null\<close> nor the empty string), the value of \<open>b\<close> otherwise.
\<close>

definition js_or :: "jsstring option \<Rightarrow> jsstring \<Rightarrow> jsstring" where
  "js_or a b = (case a of None \<Rightarrow> b | Some s \<Rightarrow> if s = [] then b else s)"

text \<open>A nullable string as a prop or as a child: \<^verbatim>\<open>null\<close> gives no prop and no child.\<close>

definition optProp :: "string \<Rightarrow> jsstring option \<Rightarrow> (string \<times> jsstring) list" where
  "optProp k v = (case v of None \<Rightarrow> [] | Some s \<Rightarrow> [(k, s)])"

definition optText :: "jsstring option \<Rightarrow> element list" where
  "optText v = (case v of None \<Rightarrow> [] | Some s \<Rightarrow> [Text s])"

text \<open>A number inside a template literal or as a child: its decimal digits.\<close>

fun string_of_nat :: "nat \<Rightarrow> jsstring" where
  "string_of_nat n =
     (if n < 10 then str [''0123456789'' ! n]
      else string_of_nat (n div 10) @ str [''0123456789'' ! (n mod 10)])"

declare string_of_nat.simps [simp del]

text \<open>
  The literals of the templates that are not ASCII letters, by their code units: the
  no-break space U+00A0, the bullet U+2022, the arrows U+2190 and U+2192 and the double
  quote.  The list item writes its bullet as the three characters U+00E2, U+20AC and U+00A2,
  which a bullet's bytes give when read in a one-byte encoding; they are kept as the source
  has them.
\<close>

definition nbsp :: jsstring where
  "nbsp = [0xA0]"

definition bullet :: jsstring where
  "bullet = [0x2022]"

definition garbledBullet :: jsstring where
  "garbledBullet = [0xE2, 0x20AC, 0xA2]"

definition leftArrow :: jsstring where
  "leftArrow = [0x2190]"

definition rightArrow :: jsstring where
  "rightArrow = [0x2192]"

definition dquote :: jsstring where
  "dquote = [0x22]"

section \<open>What the build supplies\<close>

text \<open>
  \<open>PATH_PREFIX\<close> is the global \<^verbatim>\<open>__PATH_PREFIX__\<close>, \<open>kebabCase\<close> is lodash's function,
  \<open>formatReadingTime\<close> is the helper of \<^verbatim>\<open>utils/helpers\<close> and \<open>formatDate\<close> is the
  formatting behind \<^verbatim>\<open>date(formatString: ...)\<close>.  None of them is defined in the sources,
  so every component and query takes them as parameters.
\<close>

record env =
  PATH_PREFIX :: jsstring
  kebabCase :: "jsstring \<Rightarrow> jsstring"
  formatReadingTime :: "nat \<Rightarrow> jsstring"
  formatDate :: "jsstring \<Rightarrow> jsstring \<Rightarrow> jsstring"

record location =
  pathname :: jsstring

section \<open>Query results\<close>

text \<open>
  The nodes that the queries deliver, with the fields they select.  \<open>fields'\<close> is the
  object \<^verbatim>\<open>fields\<close> of a node and \<open>next'\<close> the \<^verbatim>\<open>next\<close> of a page context.
\<close>

record node_fields =
  slug :: jsstring

record node_frontmatter =
  date :: jsstring
  title :: "jsstring option"
  description :: "jsstring option"
  tags :: "jsstring list option"

record node =
  excerpt :: jsstring
  fields' :: node_fields
  timeToRead :: nat
  frontmatter :: node_frontmatter

record markdownRemark = node +
  html :: jsstring

record counted =
  totalCount :: nat

record connection = counted +
  edges :: "node list"

record tagGroup = counted +
  fieldValue :: jsstring

text \<open>
  The \<^verbatim>\<open>data\<close> prop of a page: the site title of \<^verbatim>\<open>site.siteMetadata.title\<close> and what the
  page selects below \<^verbatim>\<open>allMarkdownRemark\<close> or \<^verbatim>\<open>markdownRemark\<close> (for the blog index its
  \<^verbatim>\<open>edges\<close>, for the tags index its \<^verbatim>\<open>group\<close>).
\<close>

record 'a pageData =
  siteTitle :: jsstring
  selected :: 'a

record tagContext =
  tag :: jsstring

record postContext =
  previous :: "node option"
  next' :: "node option"

section \<open>The content store and the page queries\<close>

text \<open>
  One post of the content store, as the Markdown file gives it: the date is the ISO date of
  the frontmatter (\<^verbatim>\<open>'2019-07-09'\<close>), so that the order of strings is the order of days.
  The store lists the posts in the order in which a query without \<^verbatim>\<open>sort\<close> delivers them.
\<close>

record post =
  post_slug :: jsstring
  post_title :: "jsstring option"
  post_date :: jsstring
  post_description :: "jsstring option"
  post_tags :: "jsstring list option"
  post_html :: jsstring
  post_excerpt :: jsstring
  post_timeToRead :: nat

text \<open>The site title of \<^verbatim>\<open>gatsby-config.js\<close>.\<close>

definition siteMetadata_title :: jsstring where
  "siteMetadata_title = str ''Jan Hesters''"

definition tagsOf :: "post \<Rightarrow> jsstring list" where
  "tagsOf p = (case post_tags p of None \<Rightarrow> [] | Some ts \<Rightarrow> ts)"

definition hasTag :: "jsstring \<Rightarrow> post \<Rightarrow> bool" where
  "hasTag t p = (t \<in> set (tagsOf p))"

text \<open>
  The page queries are GraphQL documents, which the build evaluates over the content store.
  Each is read here with the meaning its arguments have there:
  \<^item> \<^verbatim>\<open>filter: { frontmatter: { tags: { in: [$tag] } } }\<close> keeps the posts whose tag list has
    an element equal to the tag;
  \<^item> \<^verbatim>\<open>sort: { fields: [frontmatter___date], order: DESC }\<close> orders the posts by date, the
    latest first, posts of one date in the order of the store;
  \<^item> \<^verbatim>\<open>limit: 2000\<close> keeps the first 2000 nodes of the filtered and sorted sequence;
  \<^item> \<^verbatim>\<open>totalCount\<close> is the number of nodes of the filtered sequence, before the limit;
  \<^item> \<^verbatim>\<open>group(field: frontmatter___tags)\<close> has one entry for each tag value among the nodes
    of the connection, in the order of the values as strings; a node enters the group of a
    value once for every time its tag list names the value, so that the \<^verbatim>\<open>totalCount\<close> of
    the group is the number of occurrences of the value in the tag lists of the nodes;
  \<^item> \<^verbatim>\<open>date(formatString: "MMMM DD, YYYY")\<close> is the formatted date.
\<close>

fun insertDesc :: "post \<Rightarrow> post list \<Rightarrow> post list" where
  "insertDesc p [] = [p]"
| "insertDesc p (q # qs) =
     (if post_date q \<le> post_date p then p # q # qs else q # insertDesc p qs)"

definition sortDesc :: "post list \<Rightarrow> post list" where
  "sortDesc ps = foldr insertDesc ps []"

definition selectNode :: "env \<Rightarrow> post \<Rightarrow> node" where
  "selectNode env p =
     \<lparr> excerpt = post_excerpt p,
       fields' = \<lparr> slug = post_slug p \<rparr>,
       timeToRead = post_timeToRead p,
       frontmatter =
         \<lparr> date = formatDate env (str ''MMMM DD, YYYY'') (post_date p),
           title = post_title p,
           description = post_description p,
           tags = post_tags p \<rparr> \<rparr>"

definition groupByTags :: "post list \<Rightarrow> tagGroup list" where
  "groupByTags ps =
     (let values = concat (map tagsOf ps)
      in map (\<lambda>v. \<lparr> totalCount = count_list values v, fieldValue = v \<rparr>)
           (sort (remdups values)))"

text \<open>The query of the blog index (\<^verbatim>\<open>pages/index.js\<close>): all posts, the latest first.\<close>

definition pageQuery_BlogIndex :: "env \<Rightarrow> post list \<Rightarrow> (node list) pageData" where
  "pageQuery_BlogIndex env store =
     \<lparr> siteTitle = siteMetadata_title,
       selected = map (selectNode env) (sortDesc store) \<rparr>"

text \<open>The query of the tag page (\<^verbatim>\<open>templates/tags.js\<close>), with its variable \<^verbatim>\<open>$tag\<close>.\<close>

definition pageQuery_Tags :: "env \<Rightarrow> post list \<Rightarrow> jsstring \<Rightarrow> connection pageData" where
  "pageQuery_Tags env store t =
     (let matching = sortDesc (filter (hasTag t) store)
      in \<lparr> siteTitle = siteMetadata_title,
           selected =
             \<lparr> totalCount = length matching,
               edges = map (selectNode env) (take 2000 matching) \<rparr> \<rparr>)"

text \<open>The query of the tags index (\<^verbatim>\<open>pages/tags.js\<close>): the groups of the first 2000 posts.\<close>

definition pageQuery_TagsPage :: "post list \<Rightarrow> (tagGroup list) pageData" where
  "pageQuery_TagsPage store =
     \<lparr> siteTitle = siteMetadata_title,
       selected = groupByTags (take 2000 store) \<rparr>"

text \<open>
  Modelled from the spec: the page-creation step of the build (\<^verbatim>\<open>gatsby-node.js\<close>), which is
  not among the sources and hands every post page its \<^verbatim>\<open>pageContext\<close>.  The spec has the
  navigation edges computed from the one date-descending sequence of all posts: the previous
  post of a post is its older neighbour there and the next post its newer neighbour (post B
  of 2019-02-01 has previous A of 2019-01-01 and next C of 2019-03-01), and the reference is
  absent where the sequence ends.  Every post gets one page, at the path of its slug.
\<close>

definition navigation :: "node list \<Rightarrow> nat \<Rightarrow> postContext" where
  "navigation posts i =
     \<lparr> previous = (if i + 1 < length posts then Some (posts ! (i + 1)) else None),
       next' = (if 0 < i then Some (posts ! (i - 1)) else None) \<rparr>"

text \<open>
  Modelled from the spec: the pages that the same step creates, one for every post of the
  date-descending sequence, as the pair of the page's path and its \<^verbatim>\<open>pageContext\<close>.
\<close>

definition createPages :: "env \<Rightarrow> post list \<Rightarrow> (jsstring \<times> postContext) list" where
  "createPages env store =
     (let posts = map (selectNode env) (sortDesc store)
      in map (\<lambda>i. (slug (fields' (posts ! i)), navigation posts i)) [0..<length posts])"

section \<open>Components\<close>

subsection \<open>Layout\<close>

definition Layout :: "env \<Rightarrow> location \<Rightarrow> jsstring \<Rightarrow> element list \<Rightarrow> element" where
  "Layout env loc title' children =
     (let rootPath = PATH_PREFIX env @ str ''/'';
          header =
            (if pathname loc = rootPath
             then Element ''h1'' [] [Element ''Link'' [(''to'', str ''/'')] [Text title']]
             else Element ''h3'' [] [Element ''Link'' [(''to'', str ''/'')] [Text title']])
      in Element ''div'' [] (Element ''header'' [] [header] # children))"

subsection \<open>PostListItem\<close>

text \<open>
  The \<^verbatim>\<open>title\<close> prop has a default, which JavaScript takes when the caller passes no title
  (\<open>None\<close>); every caller in the sources renders \<^verbatim>\<open><PostListItem node={node} />\<close>.
\<close>

definition PostListItem :: "env \<Rightarrow> 'a node_scheme \<Rightarrow> jsstring option \<Rightarrow> element" where
  "PostListItem env node titleProp =
     (let shown =
            (case titleProp of
               None \<Rightarrow> js_or (title (frontmatter node)) (slug (fields' node))
             | Some t \<Rightarrow> t)
      in Element ''div'' [(''key'', slug (fields' node))]
           [Element ''h3'' []
              [Element ''Link'' [(''to'', slug (fields' node)), (''rel'', str ''bookmark'')]
                 [Text shown]],
            Element ''small'' []
              [Text (date (frontmatter node)),
               Text (str '' ''),
               Text (str '' '' @ garbledBullet @ str '' ''
                       @ formatReadingTime env (timeToRead node))],
            Element ''p''
              [(''dangerouslySetInnerHTML'',
                js_or (description (frontmatter node)) (excerpt node))]
              []])"


subsection \<open>Tag page (\<^verbatim>\<open>templates/tags.js\<close>)\<close>

definition tagHeader :: "nat \<Rightarrow> jsstring \<Rightarrow> jsstring" where
  "tagHeader n t =
     string_of_nat n @ str '' post'' @ (if n = 1 then [] else str ''s'') @ str '' tagged with ''
       @ dquote @ t @ dquote"

definition Tags :: "env \<Rightarrow> tagContext \<Rightarrow> connection pageData \<Rightarrow> location \<Rightarrow> element" where
  "Tags env pageContext data loc =
     (let posts = edges (selected data);
          n = totalCount (selected data)
      in Layout env loc (siteTitle data)
           [Element ''SEO''
              [(''title'', str ''All posts tagged '' @ dquote @ tag pageContext @ dquote)] [],
            Element ''h1'' [] [Text (tagHeader n (tag pageContext))],
            Element ''main'' [] (map (\<lambda>node. PostListItem env node None) posts),
            Element ''footer'' []
              [Element ''h3'' []
                 [Element ''Link'' [(''to'', str ''/'')] [Text (str ''Jan Hesters'')]],
               Element ''Bio'' [] [],
               Element ''nav'' []
                 [Element ''ul'' []
                    [Element ''li'' []
                       [Element ''Link'' [(''to'', str ''/tags''), (''rel'', str ''index'')]
                          [Text (str ''All tags'')]]]]]])"

subsection \<open>Tags index (\<^verbatim>\<open>pages/tags.js\<close>)\<close>

definition TagsPage :: "env \<Rightarrow> (tagGroup list) pageData \<Rightarrow> location \<Rightarrow> element" where
  "TagsPage env data loc =
     Layout env loc (siteTitle data)
       [Element ''SEO'' [(''title'', str ''All tags'')] [],
        Element ''div'' []
          [Element ''h1'' [] [Text (str ''All Tags'')],
           Element ''ul'' []
             (map (\<lambda>g. Element ''li'' [(''key'', fieldValue g)]
                      [Element ''Link''
                         [(''to'', str ''/tags/'' @ kebabCase env (fieldValue g) @ str ''/'')]
                         [Text (fieldValue g),
                          Text (str '' (''),
                          Text (string_of_nat (totalCount g)),
                          Text (str '')'')]])
                (selected data))]]"

subsection \<open>Blog index (\<^verbatim>\<open>pages/index.js\<close>)\<close>

definition BlogIndex :: "env \<Rightarrow> (node list) pageData \<Rightarrow> location \<Rightarrow> element" where
  "BlogIndex env data loc =
     (let posts = selected data
      in Layout env loc (siteTitle data)
           [Element ''SEO'' [(''title'', str ''All posts'')] [],
            Element ''aside'' [] [Element ''Bio'' [] []],
            Element ''main'' [] (map (\<lambda>node. PostListItem env node None) posts),
            Element ''Footer'' [] []])"

subsection \<open>Post page (\<^verbatim>\<open>templates/blog-post.js\<close>)\<close>

text \<open>
  \<^verbatim>\<open>tags.sort()\<close> sorts the strings in the default order and \<^verbatim>\<open>map\<close> passes every tag
  with its index; \<^verbatim>\<open>tags.length - 1\<close> is \<open>-1\<close> for the empty array.
\<close>

definition tagChip :: "env \<Rightarrow> nat \<Rightarrow> nat \<Rightarrow> jsstring \<Rightarrow> element" where
  "tagChip env len index t =
     Element ''li'' [(''key'', t)]
       [Element ''Link'' [(''to'', str ''/tags/'' @ kebabCase env t @ str ''/'')] [Text t],
        Text (if int index = int len - 1 then [] else str '','' @ nbsp)]"

definition tagChips :: "env \<Rightarrow> jsstring list \<Rightarrow> element list" where
  "tagChips env ts =
     map (\<lambda>(index, t). tagChip env (length ts) index t) (enumerate 0 (sort ts))"

definition BlogPostTemplate ::
  "env \<Rightarrow> markdownRemark pageData \<Rightarrow> postContext \<Rightarrow> location \<Rightarrow> element" where
  "BlogPostTemplate env data pageContext loc =
     (let post = selected data;
          ts = (case tags (frontmatter post) of None \<Rightarrow> [] | Some l \<Rightarrow> l)
      in Layout env loc (siteTitle data)
           [Element ''SEO''
              (optProp ''title'' (title (frontmatter post)) @
               [(''description'', js_or (description (frontmatter post)) (excerpt post)),
                (''slug'', slug (fields' post))])
              [],
            Element ''main'' []
              [Element ''article'' []
                 [Element ''header'' []
                    [Element ''h1'' [] (optText (title (frontmatter post))),
                     Element ''p'' []
                       [Text (date (frontmatter post)),
                        Text (str '' '' @ bullet @ str '' ''
                                @ formatReadingTime env (timeToRead post))],
                     Element ''ul'' [] (tagChips env ts)],
                  Element ''div'' [(''dangerouslySetInnerHTML'', html post)] []]],
            Element ''footer'' []
              [Element ''div'' [] [Element ''SignUp'' [] []],
               Element ''h3'' []
                 [Element ''Link'' [(''to'', str ''/'')] [Text (str ''Jan Hesters'')]],
               Element ''Bio'' [] [],
               Element ''nav'' []
                 [Element ''ul'' []
                    [Element ''li'' []
                       (case previous pageContext of
                          None \<Rightarrow> []
                        | Some p \<Rightarrow>
                            [Element ''Link'' [(''to'', slug (fields' p)), (''rel'', str ''prev'')]
                               (Text (leftArrow @ str '' '') # optText (title (frontmatter p)))]),
                     Element ''li'' []
                       (case next' pageContext of
                          None \<Rightarrow> []
                        | Some n \<Rightarrow>
                            [Element ''Link'' [(''to'', slug (fields' n)), (''rel'', str ''next'')]
                               (optText (title (frontmatter n)) @
                                [Text (str '' '' @ rightArrow)])])]]]])"

section \<open>The order the spec names\<close>

text \<open>
  The spec has the tag chips in alphabetical order.  That is the order of a dictionary, which
  does not tell a capital letter from a small one; it is written here for the letters of
  ASCII, by comparing the strings with every capital letter made small.
\<close>

definition toLowerCase :: "16 word \<Rightarrow> 16 word" where
  "toLowerCase u = (if 0x41 \<le> u \<and> u \<le> 0x5A then u + 0x20 else u)"

definition alphabetical :: "jsstring list \<Rightarrow> bool" where
  "alphabetical xs = sorted (map (map toLowerCase) xs)"

section \<open>Example data\<close>

definition exampleEnv :: env where
  "exampleEnv =
     \<lparr> PATH_PREFIX = [],
       kebabCase = id,
       formatReadingTime = string_of_nat,
       formatDate = (\<lambda>f d. d) \<rparr>"

text \<open>A post whose frontmatter has a title and a description, both the empty string.\<close>

definition emptyFieldsNode :: markdownRemark where
  "emptyFieldsNode =
     \<lparr> excerpt = str ''The first words of the body'',
       fields' = \<lparr> slug = str ''/hello-world/'' \<rparr>,
       timeToRead = 1,
       frontmatter =
         \<lparr> date = str ''May 01, 2019'',
           title = Some [],
           description = Some [],
           tags = Some [str ''react'', str ''amplify''] \<rparr>,
       html = str ''<p>The first words of the body</p>'' \<rparr>"

text \<open>
  The three posts of the scenario of the spec: A of 2019-01-01 with tag x, B of 2019-02-01
  with tags x and y, C of 2019-03-01 with tag y.
\<close>

definition scenarioPost :: "jsstring \<Rightarrow> jsstring \<Rightarrow> jsstring list \<Rightarrow> post" where
  "scenarioPost name day ts =
     \<lparr> post_slug = str ''/'' @ name @ str ''/'',
       post_title = Some name,
       post_date = day,
       post_description = None,
       post_tags = Some ts,
       post_html = str ''<p>Body</p>'',
       post_excerpt = str ''Body'',
       post_timeToRead = 1 \<rparr>"

definition postA :: post where
  "postA = scenarioPost (str ''A'') (str ''2019-01-01'') [str ''x'']"

definition postB :: post where
  "postB = scenarioPost (str ''B'') (str ''2019-02-01'') [str ''x'', str ''y'']"

definition postC :: post where
  "postC = scenarioPost (str ''C'') (str ''2019-03-01'') [str ''y'']"

text \<open>A store of 2001 posts: 2000 numbered posts tagged x, followed by one post tagged z.\<close>

definition numberedPost :: "nat \<Rightarrow> post" where
  "numberedPost i = scenarioPost (string_of_nat i) (str ''2019-01-01'') [str ''x'']"

definition overfullStore :: "post list" where
  "overfullStore =
     map numberedPost [0..<2000] @ [scenarioPost (str ''last'') (str ''2019-04-01'') [str ''z'']]"

text \<open>A store of 2001 posts that all carry the tag x.\<close>

definition crowdedStore :: "post list" where
  "crowdedStore = map numberedPost [0..<2001]"

text \<open>A post that names the tag x twice.\<close>

definition repeatedTagPost :: post where
  "repeatedTagPost = scenarioPost (str ''D'') (str ''2019-05-01'') [str ''x'', str ''x'']"

text \<open>The page data of a post with the tags a and B.\<close>

definition mixedCaseData :: "markdownRemark pageData" where
  "mixedCaseData =
     \<lparr> siteTitle = siteMetadata_title,
       selected =
         \<lparr> excerpt = str ''Body'',
           fields' = \<lparr> slug = str ''/mixed/'' \<rparr>,
           timeToRead = 1,
           frontmatter =
             \<lparr> date = str ''May 01, 2019'',
               title = Some (str ''Mixed''),
               description = None,
               tags = Some [str ''a'', str ''B''] \<rparr>,
           html = str ''<p>Body</p>'' \<rparr> \<rparr>"

definition emptyFieldsData :: "markdownRemark pageData" where
  "emptyFieldsData = \<lparr> siteTitle = siteMetadata_title, selected = emptyFieldsNode \<rparr>"

definition noNeighbours :: postContext where
  "noNeighbours = \<lparr> previous = None, next' = None \<rparr>"

definition homeLocation :: location where
  "homeLocation = \<lparr> pathname = str ''/'' \<rparr>"

definition postLocation :: location where
  "postLocation = \<lparr> pathname = str ''/hello-world/'' \<rparr>"

section \<open>String literals\<close>

lemma unat_of_char: "unat (of_char c :: 16 word) = of_char c"
proof -
  have "(of_char c :: nat) < 2 ^ 16"
    by (rule less_trans [OF nat_of_char_less_256]) simp
  moreover have "(of_char c :: 16 word) = of_nat (of_char c)"
    by (simp add: of_nat_of_char)
  ultimately show ?thesis
    by (simp only: unat_of_nat) simp
qed

lemma of_char_word_eq_iff [simp]: "(of_char c :: 16 word) = of_char d \<longleftrightarrow> c = d"
proof
  assume "(of_char c :: 16 word) = of_char d"
  then have "unat (of_char c :: 16 word) = unat (of_char d :: 16 word)"
    by simp
  then have "(of_char c :: nat) = of_char d"
    by (simp only: unat_of_char)
  then show "c = d"
    by simp
qed simp

lemma str_eq_iff [simp]: "str a = str b \<longleftrightarrow> a = b"
  by (simp add: str_def inj_on_def inj_map_eq_map)

lemma str_eq_Nil [simp]: "str a = [] \<longleftrightarrow> a = []"
  by (simp add: str_def)

section \<open>Searching rendered markup\<close>

lemma elementsNamed_Text [simp]: "elementsNamed n (Text s) = []"
  by (simp add: elementsNamed_def)

lemma elementsNamed_Element [simp]:
  "elementsNamed n (Element m ps cs) =
     (if m = n then [Element m ps cs] else []) @ concat (map (elementsNamed n) cs)"
  by (simp add: elementsNamed_def [abs_def] filter_concat comp_def)

lemma linksWithRel_Text [simp]: "linksWithRel r (Text s) = []"
  by (simp add: linksWithRel_def)

lemma linksWithRel_Element [simp]:
  "linksWithRel r (Element m ps cs) =
     (if m = ''Link'' \<and> map_of ps ''rel'' = Some (str r) then [Element m ps cs] else [])
       @ concat (map (linksWithRel r) cs)"
  by (simp add: linksWithRel_def [abs_def] filter_concat comp_def)

lemma elementsNamed_optText [simp]: "concat (map (elementsNamed n) (optText v)) = []"
  by (cases v) (simp_all add: optText_def)

lemma linksWithRel_optText [simp]: "concat (map (linksWithRel r) (optText v)) = []"
  by (cases v) (simp_all add: optText_def)

lemma elementsNamed_tagChips:
  "n \<noteq> ''li'' \<Longrightarrow> n \<noteq> ''Link'' \<Longrightarrow> concat (map (elementsNamed n) (tagChips env ts)) = []"
  by (simp add: tagChips_def tagChip_def split_def)

lemma linksWithRel_tagChips: "concat (map (linksWithRel r) (tagChips env ts)) = []"
  by (simp add: tagChips_def tagChip_def split_def)

lemma elementsNamed_li_tagChips:
  "concat (map (elementsNamed ''li'') (tagChips env ts)) = tagChips env ts"
  by (simp add: tagChips_def tagChip_def split_def comp_def)

lemma tagChips_nth:
  "tagChips env ts = map (\<lambda>i. tagChip env (length ts) i (sort ts ! i)) [0..<length ts]"
  by (rule nth_equalityI) (simp_all add: tagChips_def nth_enumerate_eq)

lemma TagsPage_items:
  "elementsNamed ''li'' (TagsPage env data loc) =
     map (\<lambda>g. Element ''li'' [(''key'', fieldValue g)]
              [Element ''Link'' [(''to'', str ''/tags/'' @ kebabCase env (fieldValue g) @ str ''/'')]
                 [Text (fieldValue g),
                  Text (str '' (''),
                  Text (string_of_nat (totalCount g)),
                  Text (str '')'')]])
       (selected data)"
  by (simp add: TagsPage_def Layout_def comp_def)

lemma TagsPage_keys:
  "set (map (getProp ''key'') (elementsNamed ''li'' (TagsPage env data loc))) =
     Some ` fieldValue ` set (selected data)"
  by (simp add: TagsPage_items image_image)

lemma prev_links:
  "linksWithRel ''prev'' (BlogPostTemplate env data ctx loc) =
     (case previous ctx of
        None \<Rightarrow> []
      | Some p \<Rightarrow>
          [Element ''Link'' [(''to'', slug (fields' p)), (''rel'', str ''prev'')]
             (Text (leftArrow @ str '' '') # optText (title (frontmatter p)))])"
  by (cases "previous ctx"; cases "next' ctx")
     (simp_all add: BlogPostTemplate_def Layout_def Let_def linksWithRel_tagChips)

lemma next_links:
  "linksWithRel ''next'' (BlogPostTemplate env data ctx loc) =
     (case next' ctx of
        None \<Rightarrow> []
      | Some n \<Rightarrow>
          [Element ''Link'' [(''to'', slug (fields' n)), (''rel'', str ''next'')]
             (optText (title (frontmatter n)) @ [Text (str '' '' @ rightArrow)])])"
  by (cases "previous ctx"; cases "next' ctx")
     (simp_all add: BlogPostTemplate_def Layout_def Let_def linksWithRel_tagChips)

section \<open>Sorting and grouping the store\<close>

lemma length_insertDesc [simp]: "length (insertDesc p ps) = Suc (length ps)"
  by (induction ps) simp_all

lemma length_sortDesc [simp]: "length (sortDesc ps) = length ps"
  by (induction ps) (simp_all add: sortDesc_def)

lemma mset_insertDesc [simp]: "mset (insertDesc p ps) = add_mset p (mset ps)"
  by (induction ps) simp_all

lemma mset_sortDesc [simp]: "mset (sortDesc ps) = mset ps"
  by (induction ps) (simp_all add: sortDesc_def)

lemma set_insertDesc [simp]: "set (insertDesc p ps) = insert p (set ps)"
  by (induction ps) auto

lemma sorted_insertDesc:
  "sorted_wrt (\<lambda>p q. post_date q \<le> post_date p) ps \<Longrightarrow>
   sorted_wrt (\<lambda>p q. post_date q \<le> post_date p) (insertDesc x ps)"
  by (induction ps) auto

lemma sorted_sortDesc: "sorted_wrt (\<lambda>p q. post_date q \<le> post_date p) (sortDesc ps)"
  by (induction ps) (simp_all add: sortDesc_def sorted_insertDesc)

lemma set_groupByTags: "fieldValue ` set (groupByTags ps) = (\<Union>p \<in> set ps. set (tagsOf p))"
  by (simp add: groupByTags_def Let_def image_image)

lemma count_list_distinct: "distinct xs \<Longrightarrow> count_list xs v = (if v \<in> set xs then 1 else 0)"
  by (induction xs) auto

lemma count_list_concat_distinct:
  "\<forall>p \<in> set ps. distinct (f p) \<Longrightarrow>
   count_list (concat (map f ps)) v = length (filter (\<lambda>p. v \<in> set (f p)) ps)"
  by (induction ps) (simp_all add: count_list_distinct)

lemma createPages_nth:
  "i < length store \<Longrightarrow>
   createPages env store ! i =
     (post_slug (sortDesc store ! i), navigation (map (selectNode env) (sortDesc store)) i)"
  by (simp add: createPages_def Let_def selectNode_def)

lemma tagsOf_scenarioPost [simp]: "tagsOf (scenarioPost n d ts) = ts"
  by (simp add: tagsOf_def scenarioPost_def)

lemma take_overfullStore: "take 2000 overfullStore = map numberedPost [0..<2000]"
  by (simp add: overfullStore_def)

lemma filter_crowdedStore: "filter (hasTag (str ''x'')) crowdedStore = crowdedStore"
  by (simp add: crowdedStore_def hasTag_def numberedPost_def filter_map comp_def)

section \<open>The post list item\<close>

text \<open>
  Claim C1, as the spec states it: the title a list item displays is the frontmatter title
  whenever the title is present.  It fails for a title that is present and empty: the link of
  the item then shows the slug.
\<close>

theorem PostListItem_title_present_empty:
  "title (frontmatter emptyFieldsNode) \<noteq> None \<and>
   map textContent (elementsNamed ''Link'' (PostListItem exampleEnv emptyFieldsNode None))
     \<noteq> [the (title (frontmatter emptyFieldsNode))]"
  by (simp add: PostListItem_def js_or_def emptyFieldsNode_def)

text \<open>
  Claim C1, amended: a list item rendered without a title prop has one link, whose text is
  the frontmatter title when the title is present and not the empty string, and the slug of
  the post otherwise.
\<close>

theorem PostListItem_title:
  "map textContent (elementsNamed ''Link'' (PostListItem env node None)) =
     [case title (frontmatter node) of
        None \<Rightarrow> slug (fields' node)
      | Some t \<Rightarrow> if t = [] then slug (fields' node) else t]"
  by (simp add: PostListItem_def js_or_def split: option.splits)

text \<open>
  Claim C2, as the spec states it: the body snippet is the frontmatter description whenever
  the description is present.  It fails for a description that is present and empty: the
  paragraph then holds the excerpt.
\<close>

theorem PostListItem_description_present_empty:
  "description (frontmatter emptyFieldsNode) \<noteq> None \<and>
   map (getProp ''dangerouslySetInnerHTML'')
       (elementsNamed ''p'' (PostListItem exampleEnv emptyFieldsNode None))
     \<noteq> [description (frontmatter emptyFieldsNode)]"
  by (simp add: PostListItem_def js_or_def emptyFieldsNode_def)

text \<open>
  Claim C2, amended: a list item has one paragraph, whose inner HTML is the frontmatter
  description when the description is present and not the empty string, and the excerpt of
  the post otherwise.
\<close>

theorem PostListItem_description:
  "map (getProp ''dangerouslySetInnerHTML'') (elementsNamed ''p'' (PostListItem env node t)) =
     [Some (case description (frontmatter node) of
              None \<Rightarrow> excerpt node
            | Some d \<Rightarrow> if d = [] then excerpt node else d)]"
  by (simp add: PostListItem_def js_or_def Let_def split: option.splits)

text \<open>
  Claim C9: when the frontmatter description of a post is present and is the empty string,
  the paragraph of its list item holds the excerpt, and so does the \<^verbatim>\<open>description\<close> prop
  that the post page hands to the SEO component.
\<close>

theorem empty_description_falls_back:
  "(description (frontmatter node) = Some [] \<longrightarrow>
      map (getProp ''dangerouslySetInnerHTML'') (elementsNamed ''p'' (PostListItem env node t))
        = [Some (excerpt node)])
   \<and> (description (frontmatter (selected data)) = Some [] \<longrightarrow>
      map (getProp ''description'') (elementsNamed ''SEO'' (BlogPostTemplate env data ctx loc))
        = [Some (excerpt (selected data))])"
  by (cases "previous ctx"; cases "next' ctx"; cases "title (frontmatter (selected data))")
     (simp_all add: PostListItem_def js_or_def Let_def BlogPostTemplate_def Layout_def
        elementsNamed_tagChips optProp_def)

theorem empty_description_falls_back_witness:
  "description (frontmatter emptyFieldsNode) = Some []
   \<and> description (frontmatter (selected emptyFieldsData)) = Some []
   \<and> map (getProp ''dangerouslySetInnerHTML'')
         (elementsNamed ''p'' (PostListItem exampleEnv emptyFieldsNode None))
       = [Some (str ''The first words of the body'')]
   \<and> map (getProp ''description'')
         (elementsNamed ''SEO''
            (BlogPostTemplate exampleEnv emptyFieldsData noNeighbours postLocation))
       = [Some (str ''The first words of the body'')]"
  using empty_description_falls_back
    [of emptyFieldsNode exampleEnv None emptyFieldsData noNeighbours postLocation]
  by (simp add: emptyFieldsNode_def emptyFieldsData_def)

section \<open>The layout\<close>

text \<open>
  Claim C8: for every path and site title, the first child of the layout is the header: it
  holds the title as a top-level heading \<^verbatim>\<open>h1\<close> when the path is the home route, the path
  prefix followed by a slash, and as the smaller heading \<^verbatim>\<open>h3\<close> with the title as the text of
  a link on every other path.  The children given to the layout follow, unchanged.
\<close>

theorem Layout_header_and_children:
  "(pathname loc = PATH_PREFIX env @ str ''/'' \<longrightarrow>
      hd (childNodes (Layout env loc t cs)) =
        Element ''header'' [] [Element ''h1'' [] [Element ''Link'' [(''to'', str ''/'')] [Text t]]])
   \<and> (pathname loc \<noteq> PATH_PREFIX env @ str ''/'' \<longrightarrow>
      hd (childNodes (Layout env loc t cs)) =
        Element ''header'' [] [Element ''h3'' [] [Element ''Link'' [(''to'', str ''/'')] [Text t]]])
   \<and> tl (childNodes (Layout env loc t cs)) = cs"
  by (simp add: Layout_def)

theorem Layout_header_and_children_witness:
  "pathname homeLocation = PATH_PREFIX exampleEnv @ str ''/''
   \<and> pathname postLocation \<noteq> PATH_PREFIX exampleEnv @ str ''/''
   \<and> hd (childNodes (Layout exampleEnv homeLocation (str ''Jan Hesters'') [Text (str ''child'')])) =
        Element ''header'' []
          [Element ''h1'' [] [Element ''Link'' [(''to'', str ''/'')] [Text (str ''Jan Hesters'')]]]
   \<and> hd (childNodes (Layout exampleEnv postLocation (str ''Jan Hesters'') [Text (str ''child'')])) =
        Element ''header'' []
          [Element ''h3'' [] [Element ''Link'' [(''to'', str ''/'')] [Text (str ''Jan Hesters'')]]]
   \<and> tl (childNodes (Layout exampleEnv homeLocation (str ''Jan Hesters'') [Text (str ''child'')])) =
        [Text (str ''child'')]"
  using Layout_header_and_children
      [of homeLocation exampleEnv "str ''Jan Hesters''" "[Text (str ''child'')]"]
    Layout_header_and_children
      [of postLocation exampleEnv "str ''Jan Hesters''" "[Text (str ''child'')]"]
  by (simp add: homeLocation_def postLocation_def exampleEnv_def)

section \<open>The tag page\<close>

text \<open>
  Claim C3: on the page of a tag, the heading shows as its count the number of posts of the
  store whose tag list has an element equal to the tag, character for character.
\<close>

theorem Tags_header_count:
  "filter (named ''h1'') (childNodes (Tags env \<lparr> tag = t \<rparr> (pageQuery_Tags env store t) loc)) =
     (let n = length (filter (\<lambda>p. t \<in> set (tagsOf p)) store)
      in [Element ''h1'' []
            [Text (string_of_nat n @ str '' post'' @ (if n = 1 then [] else str ''s'')
                     @ str '' tagged with '' @ dquote @ t @ dquote)]])"
  by (simp add: Tags_def Layout_def pageQuery_Tags_def Let_def tagHeader_def hasTag_def [abs_def])

theorem Tags_header_count_witness:
  "filter (named ''h1'')
     (childNodes (Tags exampleEnv \<lparr> tag = str ''x'' \<rparr>
        (pageQuery_Tags exampleEnv [postA, postB, postC] (str ''x'')) postLocation)) =
     [Element ''h1'' [] [Text (str ''2 posts tagged with '' @ dquote @ str ''x'' @ dquote)]]
   \<and> filter (named ''h1'')
     (childNodes (Tags exampleEnv \<lparr> tag = str ''X'' \<rparr>
        (pageQuery_Tags exampleEnv [postA, postB, postC] (str ''X'')) postLocation)) =
     [Element ''h1'' [] [Text (str ''0 posts tagged with '' @ dquote @ str ''X'' @ dquote)]]"
  using Tags_header_count [of exampleEnv "str ''x''" "[postA, postB, postC]" postLocation]
    Tags_header_count [of exampleEnv "str ''X''" "[postA, postB, postC]" postLocation]
  by (simp add: postA_def postB_def postC_def string_of_nat.simps str_def)

text \<open>
  Claim C10: the query of the tag page delivers at most 2000 nodes, so the list of a tag
  page has at most 2000 items, whatever the store; and the tags index is that of the first
  2000 posts of the store, whatever posts follow them.
\<close>

theorem queries_limited_to_2000:
  "length (edges (selected (pageQuery_Tags env store t))) \<le> 2000
   \<and> (\<exists>items.
        filter (named ''main'') (childNodes (Tags env ctx (pageQuery_Tags env store t) loc))
          = [Element ''main'' [] items]
        \<and> items = map (\<lambda>node. PostListItem env node None)
                    (edges (selected (pageQuery_Tags env store t)))
        \<and> length items \<le> 2000)
   \<and> TagsPage env (pageQuery_TagsPage store) loc =
       TagsPage env (pageQuery_TagsPage (take 2000 store)) loc"
  by (simp add: Tags_def Layout_def pageQuery_Tags_def Let_def pageQuery_TagsPage_def)

theorem queries_limited_to_2000_witness:
  "length (filter (hasTag (str ''x'')) crowdedStore) = 2001
   \<and> length (edges (selected (pageQuery_Tags exampleEnv crowdedStore (str ''x'')))) = 2000
   \<and> TagsPage exampleEnv (pageQuery_TagsPage overfullStore) homeLocation =
       TagsPage exampleEnv (pageQuery_TagsPage (map numberedPost [0..<2000])) homeLocation"
  using queries_limited_to_2000
    [of exampleEnv crowdedStore "str ''x''" "\<lparr> tag = str ''x'' \<rparr>" postLocation]
    queries_limited_to_2000
    [of exampleEnv overfullStore "str ''x''" "\<lparr> tag = str ''x'' \<rparr>" homeLocation]
  by (simp add: pageQuery_Tags_def Let_def filter_crowdedStore take_overfullStore)
     (simp add: crowdedStore_def)

section \<open>The blog index\<close>


section \<open>The post page\<close>

text \<open>
  Claim C4: let the pages be created from the sequence of all posts by descending date, the
  page of the post at position \<open>i\<close> of the sequence being rendered with any data.  The page
  has a link to a previous post if and only if the sequence has a post after position \<open>i\<close>,
  and the link leads to that older neighbour; it has a link to a next post if and only if the
  sequence has a post before position \<open>i\<close>, and the link leads to that newer neighbour.  So
  the page of the newest post has no next link and the page of the oldest post no previous
  link.
\<close>

theorem post_navigation_links:
  "i < length store \<Longrightarrow>
     (let posts = sortDesc store;
          page = BlogPostTemplate env data (snd (createPages env store ! i)) loc
      in fst (createPages env store ! i) = post_slug (posts ! i)
         \<and> mset posts = mset store
         \<and> sorted_wrt (\<lambda>p q. post_date q \<le> post_date p) posts
         \<and> (linksWithRel ''prev'' page \<noteq> [] \<longleftrightarrow> i + 1 < length posts)
         \<and> (linksWithRel ''next'' page \<noteq> [] \<longleftrightarrow> 0 < i)
         \<and> (i + 1 < length posts \<longrightarrow>
              map (getProp ''to'') (linksWithRel ''prev'' page)
                = [Some (post_slug (posts ! (i + 1)))])
         \<and> (0 < i \<longrightarrow>
              map (getProp ''to'') (linksWithRel ''next'' page)
                = [Some (post_slug (posts ! (i - 1)))])
         \<and> (i = 0 \<longrightarrow> linksWithRel ''next'' page = [])
         \<and> (i = length posts - 1 \<longrightarrow> linksWithRel ''prev'' page = []))"
  by (auto simp add: Let_def createPages_nth prev_links next_links navigation_def
        sorted_sortDesc selectNode_def)

theorem post_navigation_links_witness:
  "1 < length [postA, postB, postC]
   \<and> fst (createPages exampleEnv [postA, postB, postC] ! 1) = str ''/B/''
   \<and> map (getProp ''to'')
         (linksWithRel ''prev''
            (BlogPostTemplate exampleEnv emptyFieldsData
               (snd (createPages exampleEnv [postA, postB, postC] ! 1)) postLocation))
       = [Some (str ''/A/'')]
   \<and> map (getProp ''to'')
         (linksWithRel ''next''
            (BlogPostTemplate exampleEnv emptyFieldsData
               (snd (createPages exampleEnv [postA, postB, postC] ! 1)) postLocation))
       = [Some (str ''/C/'')]
   \<and> linksWithRel ''next''
         (BlogPostTemplate exampleEnv emptyFieldsData
            (snd (createPages exampleEnv [postA, postB, postC] ! 0)) postLocation)
       = []
   \<and> linksWithRel ''prev''
         (BlogPostTemplate exampleEnv emptyFieldsData
            (snd (createPages exampleEnv [postA, postB, postC] ! 2)) postLocation)
       = []"
  using post_navigation_links [of 1 "[postA, postB, postC]" exampleEnv emptyFieldsData postLocation]
    post_navigation_links [of 0 "[postA, postB, postC]" exampleEnv emptyFieldsData postLocation]
    post_navigation_links [of 2 "[postA, postB, postC]" exampleEnv emptyFieldsData postLocation]
  by (simp add: Let_def sortDesc_def postA_def postB_def postC_def scenarioPost_def str_def)

text \<open>
  Claim C5, as the spec states it: the tag chips of a post page are in alphabetical order.
  It fails for a post with the tags a and B: the chip of B comes first, since the default
  \<^verbatim>\<open>sort()\<close> compares code units and every capital letter of ASCII has a smaller code
  than every small one.
\<close>

theorem tag_chips_not_alphabetical:
  "tags (frontmatter (selected mixedCaseData)) = Some [str ''a'', str ''B'']
   \<and> map textContent
         (within ''article'' ''Link''
            (BlogPostTemplate exampleEnv mixedCaseData noNeighbours postLocation))
       = [str ''B'', str ''a'']
   \<and> \<not> alphabetical [str ''B'', str ''a'']"
  by (simp add: mixedCaseData_def within_def BlogPostTemplate_def Layout_def noNeighbours_def
        tagChips_def tagChip_def optText_def alphabetical_def toLowerCase_def str_def)

text \<open>
  Claim C5, amended: on the page of a post with a tag list, the list items of the article are
  the tag chips, one for every tag of the list, in the order of JavaScript's default
  \<^verbatim>\<open>sort()\<close>: the tags ascend as sequences of UTF-16 code units.  Every chip holds a link to
  \<^verbatim>\<open>/tags/\<close>, the kebab-cased tag and a slash, with the tag as its text, followed by a comma
  and a no-break space, except the last chip, which is followed by the empty string.
\<close>

theorem tag_chips_sorted_and_separated:
  "tags (frontmatter (selected data)) = Some ts \<Longrightarrow>
   \<exists>labels. sorted labels \<and> mset labels = mset ts \<and>
     within ''article'' ''li'' (BlogPostTemplate env data ctx loc) =
       map (\<lambda>i. Element ''li'' [(''key'', labels ! i)]
                [Element ''Link''
                   [(''to'', str ''/tags/'' @ kebabCase env (labels ! i) @ str ''/'')]
                   [Text (labels ! i)],
                 Text (if i + 1 = length labels then [] else str '','' @ nbsp)])
         [0..<length labels]"
proof -
  assume ts: "tags (frontmatter (selected data)) = Some ts"
  have "within ''article'' ''li'' (BlogPostTemplate env data ctx loc) = tagChips env ts"
    using ts
    by (cases "previous ctx"; cases "next' ctx")
       (simp_all add: within_def BlogPostTemplate_def Layout_def Let_def
          elementsNamed_tagChips elementsNamed_li_tagChips)
  also have "\<dots> =
       map (\<lambda>i. Element ''li'' [(''key'', sort ts ! i)]
                [Element ''Link''
                   [(''to'', str ''/tags/'' @ kebabCase env (sort ts ! i) @ str ''/'')]
                   [Text (sort ts ! i)],
                 Text (if i + 1 = length (sort ts) then [] else str '','' @ nbsp)])
         [0..<length (sort ts)]"
    by (auto simp add: tagChips_nth tagChip_def)
  finally show ?thesis
    by (intro exI [of _ "sort ts"]) simp
qed

theorem tag_chips_sorted_and_separated_witness:
  "tags (frontmatter (selected emptyFieldsData)) = Some [str ''react'', str ''amplify'']
   \<and> within ''article'' ''li''
         (BlogPostTemplate exampleEnv emptyFieldsData noNeighbours postLocation) =
       [Element ''li'' [(''key'', str ''amplify'')]
          [Element ''Link'' [(''to'', str ''/tags/amplify/'')] [Text (str ''amplify'')],
           Text (str '','' @ nbsp)],
        Element ''li'' [(''key'', str ''react'')]
          [Element ''Link'' [(''to'', str ''/tags/react/'')] [Text (str ''react'')],
           Text []]]"
  using tag_chips_sorted_and_separated
    [of emptyFieldsData "[str ''react'', str ''amplify'']" exampleEnv noNeighbours postLocation]
  by (simp add: emptyFieldsData_def emptyFieldsNode_def within_def BlogPostTemplate_def
        Layout_def noNeighbours_def tagChips_def tagChip_def exampleEnv_def optText_def str_def)

section \<open>The tags index\<close>

text \<open>
  Claim C7, as the spec states it: the tags index lists every tag value that appears in the
  tag list of a post, each with the count of the posts that carry it.  It fails for a store
  of more than 2000 posts: the tag z of the last post of the store of 2001 posts is not
  listed.  And it fails for a post whose tag list names a tag twice: one post carries the
  tag x, and its entry shows the count 2.
\<close>

theorem TagsPage_misses_tag_and_counts_occurrences:
  "str ''z'' \<in> set (concat (map tagsOf overfullStore))
   \<and> Some (str ''z'') \<notin> set (map (getProp ''key'')
        (elementsNamed ''li''
           (TagsPage exampleEnv (pageQuery_TagsPage overfullStore) homeLocation)))
   \<and> length (filter (\<lambda>p. str ''x'' \<in> set (tagsOf p)) [repeatedTagPost]) = 1
   \<and> map textContent
         (elementsNamed ''li''
            (TagsPage exampleEnv (pageQuery_TagsPage [repeatedTagPost]) homeLocation))
       = [str ''x (2)'']"
proof -
  have "str ''z'' \<in> set (concat (map tagsOf overfullStore))"
    by (simp add: overfullStore_def)
  moreover have "fieldValue ` set (selected (pageQuery_TagsPage overfullStore)) \<subseteq> {str ''x''}"
    by (auto simp add: pageQuery_TagsPage_def take_overfullStore set_groupByTags
          numberedPost_def simp del: set_upt)
  then have "Some (str ''z'') \<notin> set (map (getProp ''key'')
        (elementsNamed ''li''
           (TagsPage exampleEnv (pageQuery_TagsPage overfullStore) homeLocation)))"
    unfolding TagsPage_keys by auto
  moreover have "length (filter (\<lambda>p. str ''x'' \<in> set (tagsOf p)) [repeatedTagPost]) = 1"
    by (simp add: repeatedTagPost_def)
  moreover have "map textContent
         (elementsNamed ''li''
            (TagsPage exampleEnv (pageQuery_TagsPage [repeatedTagPost]) homeLocation))
       = [str ''x (2)'']"
    by (simp add: TagsPage_items pageQuery_TagsPage_def groupByTags_def Let_def
          repeatedTagPost_def string_of_nat.simps str_def)
  ultimately show ?thesis
    by simp
qed

text \<open>
  Claim C7, amended: the list items of the tags index are one entry for each distinct tag
  value in the tag lists of the first 2000 posts of the store, which are all posts when the
  store has at most 2000.  The entry of a tag is a link to \<^verbatim>\<open>/tags/\<close>, the kebab-cased tag
  and a slash, showing the tag and, in parentheses, the number of times those tag lists name
  the tag.  That number is the number of those posts that carry the tag when no tag list
  names a tag twice.
\<close>

theorem TagsPage_lists_tags:
  "(\<exists>vs. distinct vs \<and> set vs = (\<Union>p \<in> set (take 2000 store). set (tagsOf p)) \<and>
     elementsNamed ''li'' (TagsPage env (pageQuery_TagsPage store) loc) =
       map (\<lambda>v. Element ''li'' [(''key'', v)]
                [Element ''Link'' [(''to'', str ''/tags/'' @ kebabCase env v @ str ''/'')]
                   [Text v,
                    Text (str '' (''),
                    Text (string_of_nat
                            (count_list (concat (map tagsOf (take 2000 store))) v)),
                    Text (str '')'')]])
         vs)
   \<and> ((\<forall>p \<in> set (take 2000 store). distinct (tagsOf p)) \<longrightarrow>
        (\<forall>v. count_list (concat (map tagsOf (take 2000 store))) v =
               length (filter (\<lambda>p. v \<in> set (tagsOf p)) (take 2000 store))))"
proof
  show "\<exists>vs. distinct vs \<and> set vs = (\<Union>p \<in> set (take 2000 store). set (tagsOf p)) \<and>
     elementsNamed ''li'' (TagsPage env (pageQuery_TagsPage store) loc) =
       map (\<lambda>v. Element ''li'' [(''key'', v)]
                [Element ''Link'' [(''to'', str ''/tags/'' @ kebabCase env v @ str ''/'')]
                   [Text v,
                    Text (str '' (''),
                    Text (string_of_nat
                            (count_list (concat (map tagsOf (take 2000 store))) v)),
                    Text (str '')'')]])
         vs"
    by (intro exI [of _ "sort (remdups (concat (map tagsOf (take 2000 store))))"])
       (simp add: TagsPage_items pageQuery_TagsPage_def groupByTags_def Let_def comp_def)
next
  show "(\<forall>p \<in> set (take 2000 store). distinct (tagsOf p)) \<longrightarrow>
        (\<forall>v. count_list (concat (map tagsOf (take 2000 store))) v =
               length (filter (\<lambda>p. v \<in> set (tagsOf p)) (take 2000 store)))"
    by (simp add: count_list_concat_distinct)
qed

theorem TagsPage_lists_tags_witness:
  "distinct (tagsOf postA) \<and> distinct (tagsOf postB) \<and> distinct (tagsOf postC)
   \<and> elementsNamed ''li''
       (TagsPage exampleEnv (pageQuery_TagsPage [postA, postB, postC]) homeLocation) =
     [Element ''li'' [(''key'', str ''x'')]
        [Element ''Link'' [(''to'', str ''/tags/x/'')]
           [Text (str ''x''), Text (str '' (''), Text (str ''2''), Text (str '')'')]],
      Element ''li'' [(''key'', str ''y'')]
        [Element ''Link'' [(''to'', str ''/tags/y/'')]
           [Text (str ''y''), Text (str '' (''), Text (str ''2''), Text (str '')'')]]]
   \<and> count_list (concat (map tagsOf (take 2000 [postA, postB, postC]))) (str ''x'') = 2
   \<and> length (filter (\<lambda>p. str ''x'' \<in> set (tagsOf p)) (take 2000 [postA, postB, postC])) = 2"
  using TagsPage_lists_tags [of "[postA, postB, postC]" exampleEnv homeLocation]
  by (simp add: TagsPage_items pageQuery_TagsPage_def groupByTags_def Let_def
        postA_def postB_def postC_def exampleEnv_def string_of_nat.simps str_def)

end
